theory Spec2Isabelle
  imports Main "HOL-Library.Sublist"
begin

section \<open>Model-initializer injection (pkg/controller/seldondeployment)\<close>

text \<open>
  A shallow embedding of \<^verbatim>\<open>model_initializer_injector.go\<close>. Go strings are byte
  sequences, here \<open>string\<close>; slices are lists with value semantics; the objects the
  function mutates through pointers are threaded as explicit state; a Go \<^verbatim>\<open>error\<close>
  is a value of the datatype \<open>error\<close>, \<^verbatim>\<open>nil\<close> is \<open>None\<close>.
\<close>

subsection \<open>Constants\<close>

definition DefaultModelLocalMountPath :: string where
  "DefaultModelLocalMountPath = ''/mnt/models''"

definition ModelInitializerContainerName :: string where
  "ModelInitializerContainerName = ''model-initializer''"

definition ModelInitializerVolumeName :: string where
  "ModelInitializerVolumeName = ''kfserving-provision-location''"

definition ModelInitializerContainerImage :: string where
  "ModelInitializerContainerImage = ''gcr.io/kfserving/model-initializer''"

definition ModelInitializerContainerVersion :: string where
  "ModelInitializerContainerVersion = ''latest''"

definition PvcURIPrefix :: string where
  "PvcURIPrefix = ''pvc://''"

definition PvcSourceMountName :: string where
  "PvcSourceMountName = ''kfserving-pvc-source''"

definition PvcSourceMountPath :: string where
  "PvcSourceMountPath = ''/mnt/pvc''"

definition UserContainerName :: string where
  "UserContainerName = ''user-container''"

definition ControllerConfigMapName :: string where
  "ControllerConfigMapName = ''seldon-config''"

subsection \<open>Errors\<close>

text \<open>
  \<open>InvalidURI msg\<close> is the error \<^verbatim>\<open>fmt.Errorf("Invalid URI must be ...: %s", srcURI)\<close>
  of \<^verbatim>\<open>parsePvcURI\<close>, with its formatted message. \<open>ClientError\<close> stands for any error
  of \<^verbatim>\<open>Client.Get\<close>, \<open>CredentialError\<close> for any error of the credentials package.
\<close>

datatype error = InvalidURI string | ClientError string | CredentialError string

subsection \<open>The functions of Go's \<^verbatim>\<open>strings\<close> package that the code calls\<close>

text \<open>\<^verbatim>\<open>strings.HasPrefix\<close>: \<^verbatim>\<open>len(s) >= len(prefix) && s[:len(prefix)] == prefix\<close>.\<close>

definition HasPrefix :: "string \<Rightarrow> string \<Rightarrow> bool" where
  "HasPrefix s pre = (length s \<ge> length pre \<and> take (length pre) s = pre)"

text \<open>\<^verbatim>\<open>strings.TrimPrefix\<close>: \<^verbatim>\<open>s[len(prefix):]\<close> when \<open>s\<close> has the prefix, else \<open>s\<close>.\<close>

definition TrimPrefix :: "string \<Rightarrow> string \<Rightarrow> string" where
  "TrimPrefix s pre = (if HasPrefix s pre then drop (length pre) s else s)"

text \<open>
  \<^verbatim>\<open>strings.Index\<close> for a separator of one byte, which is \<^verbatim>\<open>strings.IndexByte\<close>: the
  index of the first occurrence of the byte; Go's \<open>-1\<close> is \<open>None\<close>.
\<close>

fun IndexByte :: "string \<Rightarrow> char \<Rightarrow> nat option" where
  "IndexByte [] c = None"
| "IndexByte (x # xs) c = (if x = c then Some 0 else map_option Suc (IndexByte xs c))"

text \<open>
  \<^verbatim>\<open>strings.Split(s, sep)\<close> for a separator of one byte, the only way the code calls it
  (\<^verbatim>\<open>"/"\<close>). Go's \<^verbatim>\<open>genSplit\<close> with \<open>n < 0\<close> repeats, while the separator occurs:
  \<^verbatim>\<open>m := Index(s, sep); a[i] = s[:m]; s = s[m+len(sep):]\<close>, and stores what is left
  as the last element. So the result has one element more than \<open>s\<close> has separators.
\<close>

function Split :: "string \<Rightarrow> char \<Rightarrow> string list" where
  "Split s sep =
     (case IndexByte s sep of
        None \<Rightarrow> [s]
      | Some m \<Rightarrow> take m s # Split (drop (m + 1) s) sep)"
  by pat_completeness auto
termination
proof (relation "measure (\<lambda>(s, sep). length s)")
  show "wf (measure (\<lambda>(s, sep). length s))" by simp
next
  fix s :: string and sep :: char and m :: nat
  assume "IndexByte s sep = Some m"
  then have "s \<noteq> []" by auto
  then show "((drop (m + 1) s, sep), (s, sep)) \<in> measure (\<lambda>(s, sep). length s)"
    by simp
qed

declare Split.simps [simp del]

text \<open>
  \<^verbatim>\<open>strings.Join\<close>: \<^verbatim>\<open>""\<close> for no element, the element itself for one, otherwise the
  elements with \<open>sep\<close> between them.
\<close>

fun Join :: "string list \<Rightarrow> string \<Rightarrow> string" where
  "Join [] sep = []"
| "Join [x] sep = x"
| "Join (x # xs) sep = x @ sep @ Join xs sep"

subsection \<open>\<^verbatim>\<open>parsePvcURI\<close>\<close>

text \<open>
  The Go function returns \<^verbatim>\<open>(pvcName, pvcPath, err)\<close>; the model returns \<open>Inr\<close> of the
  pair when \<^verbatim>\<open>err\<close> is \<^verbatim>\<open>nil\<close> and \<open>Inl\<close> of the error otherwise. The three branches
  are the three branches of the source, in its order.
\<close>

definition parsePvcURI :: "string \<Rightarrow> error + (string \<times> string)" where
  "parsePvcURI srcURI =
     (let parts = Split (TrimPrefix srcURI PvcURIPrefix) (CHR ''/'') in
      if length parts > 1 then Inr (parts ! 0, Join (drop 1 parts) ''/'')
      else if length parts = 1 then Inr (parts ! 0, '''')
      else Inl (InvalidURI (''Invalid URI must be pvc://<pvcname>/[path]: '' @ srcURI)))"

subsection \<open>Kubernetes objects\<close>

text \<open>
  The fields of the \<^verbatim>\<open>corev1\<close> and \<^verbatim>\<open>appsv1\<close> types that the code reads or writes,
  under their Go names. Where several types have a field of the same name (\<open>Name\<close>),
  it is written with its record: \<open>Container.Name\<close>, \<open>Volume.Name\<close>.
\<close>

record VolumeMount =
  Name :: string
  MountPath :: string
  ReadOnly :: bool

text \<open>
  \<^verbatim>\<open>corev1.VolumeSource\<close> holds one pointer for each kind of source, of which one is
  set. The code sets \<^verbatim>\<open>EmptyDir\<close> or \<^verbatim>\<open>PersistentVolumeClaim\<close>; \<open>OtherSource\<close> stands
  for every other kind (a secret, a config map, ...), which the code never builds nor
  inspects.
\<close>

datatype VolumeSource =
    EmptyDir
  | PersistentVolumeClaim (ClaimName: string)
  | OtherSource string

record Volume =
  Name :: string
  VolumeSource :: VolumeSource

record EnvVar =
  Name :: string
  Value :: string

record Container =
  Name :: string
  Image :: string
  Args :: "string list"
  VolumeMounts :: "VolumeMount list"
  Env :: "EnvVar list"

record PodSpec =
  Volumes :: "Volume list"
  InitContainers :: "Container list"
  Containers :: "Container list"
  ServiceAccountName :: string

text \<open>
  \<open>Spec\<close> is the pod specification \<^verbatim>\<open>deployment.Spec.Template.Spec\<close>, the only part of
  the deployment's specification that the code touches.
\<close>

record Deployment =
  Namespace :: string
  Spec :: PodSpec

subsection \<open>Collaborators\<close>

text \<open>
  \<^verbatim>\<open>Client.Get\<close> looks an object up in the cluster; the code asks it for one config
  map, by name and namespace. It is a parameter of the model: a function from the name
  and the namespace to the config map or an error.
\<close>

type_synonym ConfigMap = "(string \<times> string) list"

record Client =
  Get :: "string \<Rightarrow> string \<Rightarrow> error + ConfigMap"

text \<open>
  The package \<^verbatim>\<open>pkg/controller/resources/credentials\<close> is not part of this file. Its
  \<^verbatim>\<open>CredentialBuilder\<close> is used through one method, \<^verbatim>\<open>CreateSecretVolumeAndEnv\<close>, which
  takes the namespace, the service-account name, a pointer to the container and a
  pointer to the volume list, and returns an error or \<^verbatim>\<open>nil\<close>. The model takes a
  builder to be that method: any function from these four to the error, the container
  and the volume list as the call leaves them (it may have written through both
  pointers before it fails).
\<close>

type_synonym CredentialBuilder =
  "string \<Rightarrow> string \<Rightarrow> Container \<Rightarrow> Volume list \<Rightarrow> error option \<times> Container \<times> Volume list"

text \<open>
  What the file takes from the rest of the program: the package variable
  \<^verbatim>\<open>ControllerNamespace\<close>, set when the package loads from the environment variable
  \<^verbatim>\<open>POD_NAMESPACE\<close> (default \<^verbatim>\<open>seldon-system\<close>), and the constructor
  \<^verbatim>\<open>credentials.NewCredentialBulder\<close>.
\<close>

record Package =
  ControllerNamespace :: string
  NewCredentialBulder :: "Client \<Rightarrow> ConfigMap \<Rightarrow> CredentialBuilder"

text \<open>
  Modelled from the spec: the contract of the Credential Injector, whose code
  (\<^verbatim>\<open>CreateSecretVolumeAndEnv\<close>) is missing here. The spec (4.4) says that the
  collaborator ``may add volumes to that collection and mutate the container (add
  mounts/environment)''. So one call, given the container \<open>c\<close> and the volume list
  \<open>vs\<close>, leaves the container's name, image and arguments as they were, and the
  mounts, the environment and the volume list it was given are prefixes of those it
  leaves, whether it fails or not.
\<close>

definition addsOnly ::
  "Container \<Rightarrow> Volume list \<Rightarrow> error option \<times> Container \<times> Volume list \<Rightarrow> bool" where
  "addsOnly c vs r =
     (case r of (err, c', vs') \<Rightarrow>
        Container.Name c' = Container.Name c \<and> Image c' = Image c \<and> Args c' = Args c \<and>
        prefix (VolumeMounts c) (VolumeMounts c') \<and> prefix (Env c) (Env c') \<and>
        prefix vs vs')"

text \<open>
  Modelled from the spec: every builder that the constructor of the credentials package
  makes keeps to \<open>addsOnly\<close> at every call.
\<close>

definition CredentialContract :: "Package \<Rightarrow> bool" where
  "CredentialContract pkg =
     (\<forall>Client configMap namespace serviceAccountName c vs.
        addsOnly c vs (NewCredentialBulder pkg Client configMap namespace serviceAccountName c vs))"

subsection \<open>\<^verbatim>\<open>credentialsBuilder\<close>\<close>

text \<open>Lines 46 to 57. The two calls of the logger have no effect on the result.\<close>

definition credentialsBuilder :: "Package \<Rightarrow> Client \<Rightarrow> error + CredentialBuilder" where
  "credentialsBuilder pkg Client =
     (case Get Client ControllerConfigMapName (ControllerNamespace pkg) of
        Inl err \<Rightarrow> Inl err
      | Inr configMap \<Rightarrow> Inr (NewCredentialBulder pkg Client configMap))"

subsection \<open>\<^verbatim>\<open>InjectModelInitializer\<close>\<close>

text \<open>
  The loop of lines 66 to 70: \<open>True\<close> when it returns \<^verbatim>\<open>nil\<close> from the function, at
  the first init container whose name compares equal to the reserved one.
\<close>

fun alreadyInjected :: "Container list \<Rightarrow> bool" where
  "alreadyInjected [] = False"
| "alreadyInjected (container # rest) =
     (if Container.Name container = ModelInitializerContainerName then True
      else alreadyInjected rest)"

text \<open>The struct literals of the function, under the names of its local variables.\<close>

definition pvcSourceVolume :: "string \<Rightarrow> Volume" where
  "pvcSourceVolume pvcName =
     \<lparr>Volume.Name = PvcSourceMountName, VolumeSource = PersistentVolumeClaim pvcName\<rparr>"

definition pvcSourceVolumeMount :: VolumeMount where
  "pvcSourceVolumeMount =
     \<lparr>VolumeMount.Name = PvcSourceMountName, MountPath = PvcSourceMountPath, ReadOnly = True\<rparr>"

definition sharedVolume :: Volume where
  "sharedVolume = \<lparr>Volume.Name = ModelInitializerVolumeName, VolumeSource = EmptyDir\<rparr>"

definition sharedVolumeWriteMount :: VolumeMount where
  "sharedVolumeWriteMount =
     \<lparr>VolumeMount.Name = ModelInitializerVolumeName, MountPath = DefaultModelLocalMountPath,
      ReadOnly = False\<rparr>"

definition sharedVolumeReadMount :: VolumeMount where
  "sharedVolumeReadMount =
     \<lparr>VolumeMount.Name = ModelInitializerVolumeName, MountPath = DefaultModelLocalMountPath,
      ReadOnly = True\<rparr>"

text \<open>
  Lines 124 to 132: the init container, from the source URI and the mounts collected
  when it is built. The fields the literal does not set have Go's zero value.
\<close>

definition initContainerLiteral :: "string \<Rightarrow> VolumeMount list \<Rightarrow> Container" where
  "initContainerLiteral srcURI modelInitializerMounts =
     \<lparr>Container.Name = ModelInitializerContainerName,
      Image = ModelInitializerContainerImage @ '':'' @ ModelInitializerContainerVersion,
      Args = [srcURI, DefaultModelLocalMountPath],
      VolumeMounts = modelInitializerMounts,
      Env = []\<rparr>"

text \<open>
  Lines 72 to 104: the values of \<^verbatim>\<open>podVolumes\<close>, \<^verbatim>\<open>modelInitializerMounts\<close> and
  \<^verbatim>\<open>srcURI\<close> after the \<^verbatim>\<open>if\<close> block, or the error with which the function returns from
  inside it.
\<close>

definition pvcSource :: "string \<Rightarrow> error + (Volume list \<times> VolumeMount list \<times> string)" where
  "pvcSource srcURI =
     (if HasPrefix srcURI PvcURIPrefix then
        (case parsePvcURI srcURI of
           Inl err \<Rightarrow> Inl err
         | Inr (pvcName, pvcPath) \<Rightarrow>
             Inr ([pvcSourceVolume pvcName], [pvcSourceVolumeMount],
                  PvcSourceMountPath @ ''/'' @ pvcPath))
      else Inr ([], [], srcURI))"

text \<open>
  The function mutates the deployment and the user container through its two pointers
  and returns an error or \<^verbatim>\<open>nil\<close>. The model takes both objects and returns them as
  the call leaves them, with the error (\<open>None\<close> for \<^verbatim>\<open>nil\<close>). The function reads and
  writes the user container through its own pointer only and never looks at
  \<^verbatim>\<open>podSpec.Containers\<close>, so the user container is a component of its own. (When the
  caller's pointer points into \<^verbatim>\<open>podSpec.Containers\<close>, the deployment the caller sees
  is the one returned, with that element replaced by the user container returned.) The
  steps are those of the source, in its order; each return of the source is a branch. The
  local variable that holds the builder is \<open>credentialBuilder\<close> here, since in the source
  it has the name of the function that makes it.
\<close>

definition InjectModelInitializer ::
  "Package \<Rightarrow> Deployment \<Rightarrow> Container \<Rightarrow> string \<Rightarrow> string \<Rightarrow> Client \<Rightarrow>
   (Deployment \<times> Container) \<times> error option" where
  "InjectModelInitializer pkg deployment userContainer srcURI serviceAccountName Client =
     (let podSpec = Spec deployment in
      if alreadyInjected (InitContainers podSpec) then ((deployment, userContainer), None)
      else
        (case pvcSource srcURI of
           Inl err \<Rightarrow> ((deployment, userContainer), Some err)
         | Inr (podVolumes, modelInitializerMounts, srcURI) \<Rightarrow>
             (let podVolumes = podVolumes @ [sharedVolume];
                  modelInitializerMounts = modelInitializerMounts @ [sharedVolumeWriteMount];
                  initContainer = initContainerLiteral srcURI modelInitializerMounts;
                  userContainer = userContainer
                    \<lparr>VolumeMounts := VolumeMounts userContainer @ [sharedVolumeReadMount]\<rparr>;
                  podSpec = podSpec\<lparr>Volumes := Volumes podSpec @ podVolumes\<rparr>
              in
                (case credentialsBuilder pkg Client of
                   Inl err \<Rightarrow> ((deployment\<lparr>Spec := podSpec\<rparr>, userContainer), Some err)
                 | Inr credentialBuilder \<Rightarrow>
                     (let serviceAccountName =
                            (if serviceAccountName = '''' then ServiceAccountName podSpec
                             else serviceAccountName)
                      in
                        (case credentialBuilder (Namespace deployment) serviceAccountName
                                initContainer (Volumes podSpec) of
                           (Some err, initContainer, volumes) \<Rightarrow>
                             ((deployment\<lparr>Spec := podSpec\<lparr>Volumes := volumes\<rparr>\<rparr>,
                               userContainer), Some err)
                         | (None, initContainer, volumes) \<Rightarrow>
                             ((deployment\<lparr>Spec := podSpec
                                 \<lparr>Volumes := volumes,
                                  InitContainers := InitContainers podSpec @ [initContainer]\<rparr>\<rparr>,
                               userContainer), None)))))))"

text \<open>
  Two invocations in a row with identical inputs: the second one gets the deployment
  and the user container as the first one left them, and the same source URI,
  service-account name and client.
\<close>

definition InjectTwice ::
  "Package \<Rightarrow> Deployment \<Rightarrow> Container \<Rightarrow> string \<Rightarrow> string \<Rightarrow> Client \<Rightarrow>
   (Deployment \<times> Container) \<times> error option" where
  "InjectTwice pkg deployment userContainer srcURI serviceAccountName Client =
     (case InjectModelInitializer pkg deployment userContainer srcURI serviceAccountName Client of
        ((deployment', userContainer'), err) \<Rightarrow>
          InjectModelInitializer pkg deployment' userContainer' srcURI serviceAccountName Client)"

subsection \<open>Example inputs\<close>

text \<open>
  Concrete collaborators and objects, at which the theorems below are evaluated: a
  cluster that holds the config map and one that does not; a builder that finds nothing
  to attach, one that attaches a secret (a volume, its mount and an environment
  variable) and one that fails after it has appended a volume.
\<close>

definition foundConfigMap :: "string \<Rightarrow> string \<Rightarrow> error + ConfigMap" where
  "foundConfigMap name namespace = Inr []"

definition notFound :: "string \<Rightarrow> string \<Rightarrow> error + ConfigMap" where
  "notFound name namespace = Inl (ClientError ''configmap not found'')"

definition clusterClient :: Client where
  "clusterClient = \<lparr>Get = foundConfigMap\<rparr>"

definition failingClient :: Client where
  "failingClient = \<lparr>Get = notFound\<rparr>"

definition noCredentials :: "Client \<Rightarrow> ConfigMap \<Rightarrow> CredentialBuilder" where
  "noCredentials Client configMap namespace serviceAccountName c vs = (None, c, vs)"

definition secretVolume :: Volume where
  "secretVolume = \<lparr>Volume.Name = ''user-gcp-sa'', VolumeSource = OtherSource ''secret''\<rparr>"

definition secretMount :: VolumeMount where
  "secretMount =
     \<lparr>VolumeMount.Name = ''user-gcp-sa'', MountPath = ''/var/secrets/'', ReadOnly = True\<rparr>"

definition secretCredentials :: "Client \<Rightarrow> ConfigMap \<Rightarrow> CredentialBuilder" where
  "secretCredentials Client configMap namespace serviceAccountName c vs =
     (None,
      c\<lparr>VolumeMounts := VolumeMounts c @ [secretMount],
        Env := Env c @ [\<lparr>EnvVar.Name = ''GOOGLE_APPLICATION_CREDENTIALS'',
                        Value = ''/var/secrets/key.json''\<rparr>]\<rparr>,
      vs @ [secretVolume])"

definition brokenCredentials :: "Client \<Rightarrow> ConfigMap \<Rightarrow> CredentialBuilder" where
  "brokenCredentials Client configMap namespace serviceAccountName c vs =
     (Some (CredentialError ''malformed credential configuration''), c, vs @ [secretVolume])"

definition plainPackage :: Package where
  "plainPackage =
     \<lparr>ControllerNamespace = ''seldon-system'', NewCredentialBulder = noCredentials\<rparr>"

definition secretPackage :: Package where
  "secretPackage =
     \<lparr>ControllerNamespace = ''seldon-system'', NewCredentialBulder = secretCredentials\<rparr>"

definition brokenPackage :: Package where
  "brokenPackage =
     \<lparr>ControllerNamespace = ''seldon-system'', NewCredentialBulder = brokenCredentials\<rparr>"

definition emptyPodSpec :: PodSpec where
  "emptyPodSpec =
     \<lparr>Volumes = [], InitContainers = [], Containers = [], ServiceAccountName = ''''\<rparr>"

definition emptyDeployment :: Deployment where
  "emptyDeployment = \<lparr>Namespace = ''default'', Spec = emptyPodSpec\<rparr>"

definition exampleUserContainer :: Container where
  "exampleUserContainer =
     \<lparr>Container.Name = UserContainerName, Image = ''seldonio/sklearnserver:0.1'', Args = [],
      VolumeMounts = [], Env = []\<rparr>"

definition reservedContainer :: Container where
  "reservedContainer =
     \<lparr>Container.Name = ModelInitializerContainerName, Image = ''busybox'', Args = [],
      VolumeMounts = [], Env = []\<rparr>"

definition injectedDeployment :: Deployment where
  "injectedDeployment =
     \<lparr>Namespace = ''default'',
      Spec = \<lparr>Volumes = [], InitContainers = [reservedContainer], Containers = [],
              ServiceAccountName = ''''\<rparr>\<rparr>"

section \<open>Properties of the string functions\<close>

lemma HasPrefix_iff_prefix: "HasPrefix s pre \<longleftrightarrow> prefix pre s"
proof
  assume "HasPrefix s pre"
  then have "s = pre @ drop (length pre) s"
    by (metis HasPrefix_def append_take_drop_id)
  then show "prefix pre s" by (rule prefixI)
next
  assume "prefix pre s"
  then show "HasPrefix s pre" by (auto simp: HasPrefix_def prefix_def)
qed

lemma TrimPrefix_append: "TrimPrefix (pre @ s) pre = s"
  by (simp add: TrimPrefix_def HasPrefix_def)

lemma IndexByte_None: "IndexByte s c = None \<longleftrightarrow> c \<notin> set s"
  by (induction s) auto

lemma IndexByte_Some:
  "IndexByte s c = Some m \<Longrightarrow> c \<notin> set (take m s) \<and> s = take m s @ c # drop (Suc m) s"
  by (induction s arbitrary: m) (auto split: if_splits)

lemma IndexByte_append: "c \<notin> set a \<Longrightarrow> IndexByte (a @ c # b) c = Some (length a)"
  by (induction a) auto

lemma Split_not_Nil: "Split s c \<noteq> []"
  by (subst Split.simps) (simp split: option.splits)

lemma Split_Nil: "Split [] c = [[]]"
  by (subst Split.simps) simp

lemma Split_no_sep: "c \<notin> set s \<Longrightarrow> Split s c = [s]"
  by (subst Split.simps) (simp add: IndexByte_None[THEN iffD2])

lemma Split_sep: "c \<notin> set a \<Longrightarrow> Split (a @ c # b) c = a # Split b c"
  by (subst Split.simps) (simp add: IndexByte_append)

lemma Split_Cons:
  "Split (x # xs) c = (if x = c then [] # Split xs c
                        else (x # hd (Split xs c)) # tl (Split xs c))"
proof (cases "x = c")
  case True
  then show ?thesis by (subst Split.simps) simp
next
  case False
  show ?thesis
  proof (cases "IndexByte xs c")
    case None
    then show ?thesis using False
      by (subst Split.simps, subst (2 3) Split.simps) simp
  next
    case (Some m)
    then show ?thesis using False
      by (subst Split.simps, subst (2 3) Split.simps) simp
  qed
qed

lemma hd_Split_no_sep: "c \<notin> set (hd (Split s c))"
  by (induction s) (auto simp: Split_Nil Split_Cons)

lemma length_Split: "length (Split s c) = Suc (length (filter (\<lambda>x. x = c) s))"
  by (induction s) (auto simp: Split_Nil Split_Cons Split_not_Nil)

lemma Join_Cons: "ys \<noteq> [] \<Longrightarrow> Join (x # ys) sep = x @ sep @ Join ys sep"
  by (cases ys) auto

lemma Join_Split: "Join (Split s c) [c] = s"
proof (induction s)
  case Nil
  show ?case by (simp add: Split_Nil)
next
  case (Cons x xs)
  obtain y ys where ne: "Split xs c = y # ys"
    using Split_not_Nil by (cases "Split xs c") auto
  show ?case
  proof (cases "x = c")
    case True
    then show ?thesis using Cons ne by (simp add: Split_Cons)
  next
    case False
    then show ?thesis using Cons ne by (cases ys) (auto simp: Split_Cons)
  qed
qed

lemma parsePvcURI_parts:
  "parsePvcURI srcURI =
     Inr (hd (Split (TrimPrefix srcURI PvcURIPrefix) (CHR ''/'')),
          Join (tl (Split (TrimPrefix srcURI PvcURIPrefix) (CHR ''/''))) ''/'')"
proof -
  obtain y ys where ne: "Split (TrimPrefix srcURI PvcURIPrefix) (CHR ''/'') = y # ys"
    using Split_not_Nil by (cases "Split (TrimPrefix srcURI PvcURIPrefix) (CHR ''/'')") auto
  show ?thesis
    by (cases ys) (simp_all add: parsePvcURI_def ne drop_Suc)
qed

lemma parsePvcURI_never_fails: "parsePvcURI srcURI \<noteq> Inl e"
  by (simp add: parsePvcURI_parts)

section \<open>Claims about \<^verbatim>\<open>parsePvcURI\<close>\<close>

text \<open>
  C1. The claim: for the URI \<^verbatim>\<open>pvc://\<close>, whose remainder after the prefix is empty,
  \<^verbatim>\<open>parsePvcURI\<close> fails with an InvalidURI error. The code does not: \<^verbatim>\<open>strings.Split\<close>
  of the empty string is the one-element list of the empty string, so the second branch
  is taken and the function returns the empty claim name and the empty sub-path with no
  error. The error branch of the source is unreachable.
\<close>

theorem parsePvcURI_empty_remainder_no_error:
  "parsePvcURI ''pvc://'' = Inr ('''', '''')"
  by (simp add: parsePvcURI_def TrimPrefix_def HasPrefix_def PvcURIPrefix_def Split.simps)

text \<open>
  C8. For every URI whose remainder after stripping \<^verbatim>\<open>pvc://\<close> is not empty,
  \<^verbatim>\<open>parsePvcURI\<close> returns no error and: when the remainder split on \<^verbatim>\<open>/\<close> has more than
  one segment, the first segment as the claim name and the other segments rejoined with
  \<^verbatim>\<open>/\<close> as the sub-path; when it has exactly one segment, that segment as the claim name
  and the empty sub-path. The last two conjuncts say what the segments are: the claim
  name holds no separator, and the remainder is the claim name alone (one segment) or
  the claim name, a separator and the sub-path (more than one).
\<close>

theorem parsePvcURI_segments:
  assumes "TrimPrefix srcURI PvcURIPrefix \<noteq> []"
  shows "(\<exists>pvcName pvcPath. parsePvcURI srcURI = Inr (pvcName, pvcPath)) \<and>
         (length (Split (TrimPrefix srcURI PvcURIPrefix) (CHR ''/'')) > 1 \<longrightarrow>
            parsePvcURI srcURI =
              Inr (hd (Split (TrimPrefix srcURI PvcURIPrefix) (CHR ''/'')),
                   Join (tl (Split (TrimPrefix srcURI PvcURIPrefix) (CHR ''/''))) ''/'') \<and>
            TrimPrefix srcURI PvcURIPrefix =
              fst (projr (parsePvcURI srcURI)) @ ''/'' @ snd (projr (parsePvcURI srcURI))) \<and>
         (length (Split (TrimPrefix srcURI PvcURIPrefix) (CHR ''/'')) = 1 \<longrightarrow>
            parsePvcURI srcURI = Inr (hd (Split (TrimPrefix srcURI PvcURIPrefix) (CHR ''/'')), '''') \<and>
            TrimPrefix srcURI PvcURIPrefix = fst (projr (parsePvcURI srcURI))) \<and>
         CHR ''/'' \<notin> set (fst (projr (parsePvcURI srcURI)))"
proof -
  let ?r = "TrimPrefix srcURI PvcURIPrefix"
  obtain y ys where ne: "Split ?r (CHR ''/'') = y # ys"
    using Split_not_Nil by (cases "Split ?r (CHR ''/'')") auto
  have p: "parsePvcURI srcURI = Inr (y, Join ys ''/'')"
    by (simp add: parsePvcURI_parts ne)
  have j: "Join (y # ys) ''/'' = ?r"
    using Join_Split[of ?r "CHR ''/''"] by (simp add: ne)
  have h: "CHR ''/'' \<notin> set y"
    using hd_Split_no_sep[of "CHR ''/''" ?r] by (simp add: ne)
  show ?thesis
  proof (cases ys)
    case Nil
    then have "?r = y" using j by simp
    then show ?thesis unfolding p ne using h Nil by simp
  next
    case (Cons z zs)
    then have "?r = y @ ''/'' @ Join ys ''/''" using j by simp
    then show ?thesis unfolding p ne using h Cons by simp
  qed
qed

theorem parsePvcURI_segments_witness:
  "TrimPrefix ''pvc://claim1/sub/dir'' PvcURIPrefix \<noteq> [] \<and>
   parsePvcURI ''pvc://claim1/sub/dir'' = Inr (''claim1'', ''sub/dir'') \<and>
   TrimPrefix ''pvc://claim1'' PvcURIPrefix \<noteq> [] \<and>
   parsePvcURI ''pvc://claim1'' = Inr (''claim1'', '''')"
proof -
  have a: "TrimPrefix ''pvc://claim1/sub/dir'' PvcURIPrefix = ''claim1/sub/dir''"
    by (simp add: TrimPrefix_def HasPrefix_def PvcURIPrefix_def)
  have b: "TrimPrefix ''pvc://claim1'' PvcURIPrefix = ''claim1''"
    by (simp add: TrimPrefix_def HasPrefix_def PvcURIPrefix_def)
  have sa: "Split ''claim1/sub/dir'' (CHR ''/'') = [''claim1'', ''sub'', ''dir'']"
    by (simp add: Split.simps)
  have sb: "Split ''claim1'' (CHR ''/'') = [''claim1'']"
    by (simp add: Split.simps)
  from parsePvcURI_segments[of "''pvc://claim1/sub/dir''"]
  have 1: "parsePvcURI ''pvc://claim1/sub/dir'' = Inr (''claim1'', ''sub/dir'')"
    by (simp add: a sa)
  from parsePvcURI_segments[of "''pvc://claim1''"]
  have 2: "parsePvcURI ''pvc://claim1'' = Inr (''claim1'', '''')"
    by (simp add: b sb)
  show ?thesis using 1 2 by (simp add: a b)
qed

section \<open>Properties of the injection\<close>

lemmas example_defs =
  foundConfigMap_def notFound_def clusterClient_def failingClient_def noCredentials_def
  secretVolume_def secretMount_def secretCredentials_def brokenCredentials_def
  plainPackage_def secretPackage_def brokenPackage_def emptyPodSpec_def emptyDeployment_def
  exampleUserContainer_def reservedContainer_def injectedDeployment_def

lemmas model_defs =
  InjectModelInitializer_def InjectTwice_def pvcSource_def credentialsBuilder_def
  initContainerLiteral_def Let_def HasPrefix_def TrimPrefix_def PvcURIPrefix_def
  parsePvcURI_def Split.simps

lemma alreadyInjected_iff:
  "alreadyInjected cs \<longleftrightarrow> (\<exists>c\<in>set cs. Container.Name c = ModelInitializerContainerName)"
  by (induction cs) auto

lemma alreadyInjected_append:
  "alreadyInjected (cs @ ds) \<longleftrightarrow> alreadyInjected cs \<or> alreadyInjected ds"
  by (induction cs) auto

lemma pvcSource_pvc:
  assumes "HasPrefix srcURI PvcURIPrefix" and "parsePvcURI srcURI = Inr (pvcName, pvcPath)"
  shows "pvcSource srcURI =
           Inr ([pvcSourceVolume pvcName], [pvcSourceVolumeMount],
                PvcSourceMountPath @ ''/'' @ pvcPath)"
  using assms by (simp add: pvcSource_def)

lemma pvcSource_other:
  "\<not> HasPrefix srcURI PvcURIPrefix \<Longrightarrow> pvcSource srcURI = Inr ([], [], srcURI)"
  by (simp add: pvcSource_def)

lemma pvcSource_never_fails: "pvcSource srcURI \<noteq> Inl e"
  by (auto simp: pvcSource_def parsePvcURI_parts)

lemma pvcSource_result:
  obtains podVolumes mounts uri where "pvcSource srcURI = Inr (podVolumes, mounts, uri)"
  using pvcSource_never_fails[of srcURI] by (cases "pvcSource srcURI") auto

text \<open>The four ways out of the function.\<close>

lemma Inject_guard:
  "alreadyInjected (InitContainers (Spec d)) \<Longrightarrow>
   InjectModelInitializer pkg d uc srcURI sa Client = ((d, uc), None)"
  by (simp add: InjectModelInitializer_def)

lemma Inject_lookup_fails:
  assumes "\<not> alreadyInjected (InitContainers (Spec d))"
    and "pvcSource srcURI = Inr (pv, mm, u)"
    and "credentialsBuilder pkg Client = Inl err"
  shows "InjectModelInitializer pkg d uc srcURI sa Client =
           ((d\<lparr>Spec := (Spec d)\<lparr>Volumes := Volumes (Spec d) @ pv @ [sharedVolume]\<rparr>\<rparr>,
             uc\<lparr>VolumeMounts := VolumeMounts uc @ [sharedVolumeReadMount]\<rparr>), Some err)"
  using assms by (simp add: InjectModelInitializer_def Let_def)

lemma Inject_credentials_fail:
  assumes "\<not> alreadyInjected (InitContainers (Spec d))"
    and "pvcSource srcURI = Inr (pv, mm, u)"
    and "credentialsBuilder pkg Client = Inr cb"
    and "cb (Namespace d) (if sa = '''' then ServiceAccountName (Spec d) else sa)
            (initContainerLiteral u (mm @ [sharedVolumeWriteMount]))
            (Volumes (Spec d) @ pv @ [sharedVolume]) = (Some err, ic, vols)"
  shows "InjectModelInitializer pkg d uc srcURI sa Client =
           ((d\<lparr>Spec := (Spec d)\<lparr>Volumes := vols\<rparr>\<rparr>,
             uc\<lparr>VolumeMounts := VolumeMounts uc @ [sharedVolumeReadMount]\<rparr>), Some err)"
  using assms by (cases "sa = []") (simp_all add: InjectModelInitializer_def Let_def)

lemma Inject_succeeds:
  assumes "\<not> alreadyInjected (InitContainers (Spec d))"
    and "pvcSource srcURI = Inr (pv, mm, u)"
    and "credentialsBuilder pkg Client = Inr cb"
    and "cb (Namespace d) (if sa = '''' then ServiceAccountName (Spec d) else sa)
            (initContainerLiteral u (mm @ [sharedVolumeWriteMount]))
            (Volumes (Spec d) @ pv @ [sharedVolume]) = (None, ic, vols)"
  shows "InjectModelInitializer pkg d uc srcURI sa Client =
           ((d\<lparr>Spec := (Spec d)\<lparr>Volumes := vols,
                                  InitContainers := InitContainers (Spec d) @ [ic]\<rparr>\<rparr>,
             uc\<lparr>VolumeMounts := VolumeMounts uc @ [sharedVolumeReadMount]\<rparr>), None)"
  using assms by (cases "sa = []") (simp_all add: InjectModelInitializer_def Let_def)

text \<open>A call that passes the guard and returns no error went through every step.\<close>

lemma Inject_success_cases:
  assumes "\<not> alreadyInjected (InitContainers (Spec d))"
    and "pvcSource srcURI = Inr (pv, mm, u)"
    and "InjectModelInitializer pkg d uc srcURI sa Client = ((d', uc'), None)"
  obtains cb ic where "credentialsBuilder pkg Client = Inr cb"
    and "cb (Namespace d) (if sa = '''' then ServiceAccountName (Spec d) else sa)
            (initContainerLiteral u (mm @ [sharedVolumeWriteMount]))
            (Volumes (Spec d) @ pv @ [sharedVolume]) = (None, ic, Volumes (Spec d'))"
    and "InitContainers (Spec d') = InitContainers (Spec d) @ [ic]"
    and "uc' = uc\<lparr>VolumeMounts := VolumeMounts uc @ [sharedVolumeReadMount]\<rparr>"
    and "d' = d\<lparr>Spec := (Spec d)\<lparr>Volumes := Volumes (Spec d'),
                                  InitContainers := InitContainers (Spec d) @ [ic]\<rparr>\<rparr>"
proof (cases "credentialsBuilder pkg Client")
  case (Inl err)
  from Inject_lookup_fails[OF assms(1,2) Inl] assms(3) show ?thesis by simp
next
  case (Inr cb)
  obtain e ic vols where r:
    "cb (Namespace d) (if sa = '''' then ServiceAccountName (Spec d) else sa)
        (initContainerLiteral u (mm @ [sharedVolumeWriteMount]))
        (Volumes (Spec d) @ pv @ [sharedVolume]) = (e, ic, vols)"
    by (metis prod_cases3)
  show ?thesis
  proof (cases e)
    case None
    from Inject_succeeds[OF assms(1,2) Inr r[unfolded None]] assms(3)
    have "d' = d\<lparr>Spec := (Spec d)\<lparr>Volumes := vols,
                                  InitContainers := InitContainers (Spec d) @ [ic]\<rparr>\<rparr>"
      and "uc' = uc\<lparr>VolumeMounts := VolumeMounts uc @ [sharedVolumeReadMount]\<rparr>"
      by simp_all
    then show ?thesis using that[OF Inr, of ic] r None by simp
  next
    case (Some err)
    from Inject_credentials_fail[OF assms(1,2) Inr r[unfolded Some]] assms(3)
    show ?thesis by simp
  qed
qed

text \<open>What the contract gives at one call of a builder.\<close>

lemma contract_call:
  assumes "CredentialContract pkg" and "credentialsBuilder pkg Client = Inr cb"
  shows "addsOnly c vs (cb ns sa c vs)"
  using assms by (auto simp: CredentialContract_def credentialsBuilder_def split: sum.splits)

lemma contract_keeps:
  assumes "CredentialContract pkg" and "credentialsBuilder pkg Client = Inr cb"
    and "cb ns sa c vs = (err, c', vs')"
  shows "Container.Name c' = Container.Name c" and "Image c' = Image c" and "Args c' = Args c"
    and "prefix (VolumeMounts c) (VolumeMounts c')" and "prefix vs vs'"
  using contract_call[OF assms(1,2), of c vs ns sa] unfolding assms(3)
  by (simp_all add: addsOnly_def)

lemma plainPackage_contract: "CredentialContract plainPackage"
  by (simp add: CredentialContract_def plainPackage_def noCredentials_def addsOnly_def)

lemma secretPackage_contract: "CredentialContract secretPackage"
  by (simp add: CredentialContract_def secretPackage_def secretCredentials_def addsOnly_def)

lemma brokenPackage_contract: "CredentialContract brokenPackage"
  by (simp add: CredentialContract_def brokenPackage_def brokenCredentials_def addsOnly_def)

lemma injectedDeployment_reserved:
  "\<exists>c\<in>set (InitContainers (Spec injectedDeployment)).
     Container.Name c = ModelInitializerContainerName"
  by (simp add: injectedDeployment_def reservedContainer_def)

lemma emptyDeployment_fresh:
  "\<forall>c\<in>set (InitContainers (Spec emptyDeployment)).
     Container.Name c \<noteq> ModelInitializerContainerName"
  by (simp add: emptyDeployment_def emptyPodSpec_def)

lemma emptyDeployment_no_init: "InitContainers (Spec emptyDeployment) = []"
  by (simp add: emptyDeployment_def emptyPodSpec_def)

text \<open>What the block of lines 72 to 104 yields, by the scheme of the source URI.\<close>

lemma pvcSource_shape:
  assumes "pvcSource srcURI = Inr (pv, mm, u)"
  shows "pv = (if HasPrefix srcURI PvcURIPrefix
               then [pvcSourceVolume (fst (projr (parsePvcURI srcURI)))] else [])"
    and "mm = (if HasPrefix srcURI PvcURIPrefix then [pvcSourceVolumeMount] else [])"
    and "u = (if HasPrefix srcURI PvcURIPrefix
              then PvcSourceMountPath @ ''/'' @ snd (projr (parsePvcURI srcURI)) else srcURI)"
  using assms by (auto simp: pvcSource_def parsePvcURI_parts split: if_splits)

text \<open>
  A call that passes the guard and returns no error, when the builder keeps to the
  contract: the init container appended is the one of lines 124 to 132 in name, image
  and arguments, its mounts start with the mounts collected, and the volume list starts
  with the former volumes and the volumes built.
\<close>

lemma Inject_success_contract:
  assumes "\<not> alreadyInjected (InitContainers (Spec d))"
    and "CredentialContract pkg"
    and "pvcSource srcURI = Inr (pv, mm, u)"
    and "InjectModelInitializer pkg d uc srcURI sa Client = ((d', uc'), None)"
  obtains cb ic where "credentialsBuilder pkg Client = Inr cb"
    and "cb (Namespace d) (if sa = '''' then ServiceAccountName (Spec d) else sa)
            (initContainerLiteral u (mm @ [sharedVolumeWriteMount]))
            (Volumes (Spec d) @ pv @ [sharedVolume]) = (None, ic, Volumes (Spec d'))"
    and "InitContainers (Spec d') = InitContainers (Spec d) @ [ic]"
    and "uc' = uc\<lparr>VolumeMounts := VolumeMounts uc @ [sharedVolumeReadMount]\<rparr>"
    and "Container.Name ic = ModelInitializerContainerName"
    and "Image ic = ModelInitializerContainerImage @ '':'' @ ModelInitializerContainerVersion"
    and "Args ic = [u, DefaultModelLocalMountPath]"
    and "prefix (mm @ [sharedVolumeWriteMount]) (VolumeMounts ic)"
    and "prefix (Volumes (Spec d) @ pv @ [sharedVolume]) (Volumes (Spec d'))"
proof -
  from Inject_success_cases[OF assms(1,3,4)]
  obtain cb ic where cb: "credentialsBuilder pkg Client = Inr cb"
    and call: "cb (Namespace d) (if sa = '''' then ServiceAccountName (Spec d) else sa)
                 (initContainerLiteral u (mm @ [sharedVolumeWriteMount]))
                 (Volumes (Spec d) @ pv @ [sharedVolume]) = (None, ic, Volumes (Spec d'))"
    and ics: "InitContainers (Spec d') = InitContainers (Spec d) @ [ic]"
    and uc: "uc' = uc\<lparr>VolumeMounts := VolumeMounts uc @ [sharedVolumeReadMount]\<rparr>"
    by blast
  note k = contract_keeps[OF assms(2) cb call]
  show ?thesis
    using that[OF cb call ics uc] k by (simp add: initContainerLiteral_def)
qed

section \<open>Claims about \<^verbatim>\<open>InjectModelInitializer\<close>\<close>

text \<open>
  C2, as stated, fails. A cluster without the config map makes the credential step fail
  after the user container's mount and the volumes have been appended; the init
  container is not appended, so the guard does not stop a second invocation with
  identical inputs, which appends the mount and the volume once more. The state after
  two invocations differs from the state after one.
\<close>

theorem retry_after_failure_repeats_mutation:
  "fst (InjectTwice plainPackage emptyDeployment exampleUserContainer ''s3://bucket/model'' ''''
          failingClient) \<noteq>
   fst (InjectModelInitializer plainPackage emptyDeployment exampleUserContainer
          ''s3://bucket/model'' '''' failingClient)"
  by (simp add: model_defs example_defs)

text \<open>
  C2, amended. When the first invocation returns no error and the Credential Injector
  keeps to its contract, a second invocation with identical inputs changes nothing and
  returns no error: two invocations leave the state of one. And when the PodTemplate
  already holds an init container with the reserved name, the invocation returns no
  error and leaves the deployment and the user container as they were: no new init
  container, no new volume, no new mount.
\<close>

theorem injection_idempotent_once_injected:
  "(CredentialContract pkg \<and>
    snd (InjectModelInitializer pkg deployment userContainer srcURI serviceAccountName Client) = None
    \<longrightarrow> InjectTwice pkg deployment userContainer srcURI serviceAccountName Client =
        InjectModelInitializer pkg deployment userContainer srcURI serviceAccountName Client) \<and>
   ((\<exists>c\<in>set (InitContainers (Spec deployment)).
       Container.Name c = ModelInitializerContainerName)
    \<longrightarrow> InjectModelInitializer pkg deployment userContainer srcURI serviceAccountName Client =
        ((deployment, userContainer), None))"
proof (intro conjI impI)
  assume "\<exists>c\<in>set (InitContainers (Spec deployment)).
            Container.Name c = ModelInitializerContainerName"
  then show "InjectModelInitializer pkg deployment userContainer srcURI serviceAccountName Client =
               ((deployment, userContainer), None)"
    by (simp add: Inject_guard alreadyInjected_iff)
next
  let ?once = "InjectModelInitializer pkg deployment userContainer srcURI serviceAccountName Client"
  assume a: "CredentialContract pkg \<and> snd ?once = None"
  obtain d' uc' where once: "?once = ((d', uc'), None)"
    using a by (cases ?once) auto
  have "alreadyInjected (InitContainers (Spec d'))"
  proof (cases "alreadyInjected (InitContainers (Spec deployment))")
    case True
    with once show ?thesis by (simp add: Inject_guard)
  next
    case False
    obtain pv mm u where p: "pvcSource srcURI = Inr (pv, mm, u)"
      by (rule pvcSource_result)
    from Inject_success_cases[OF False p once]
    obtain cb ic where cb: "credentialsBuilder pkg Client = Inr cb"
      and call: "cb (Namespace deployment)
                   (if serviceAccountName = '''' then ServiceAccountName (Spec deployment)
                    else serviceAccountName)
                   (initContainerLiteral u (mm @ [sharedVolumeWriteMount]))
                   (Volumes (Spec deployment) @ pv @ [sharedVolume]) =
                 (None, ic, Volumes (Spec d'))"
      and ics: "InitContainers (Spec d') = InitContainers (Spec deployment) @ [ic]"
      by blast
    from contract_keeps(1)[OF conjunct1[OF a] cb call]
    have "Container.Name ic = ModelInitializerContainerName"
      by (simp add: initContainerLiteral_def)
    then show ?thesis by (simp add: ics alreadyInjected_append)
  qed
  then show "InjectTwice pkg deployment userContainer srcURI serviceAccountName Client = ?once"
    by (simp add: InjectTwice_def once Inject_guard)
qed

theorem injection_idempotent_once_injected_witness:
  "CredentialContract secretPackage \<and>
   snd (InjectModelInitializer secretPackage emptyDeployment exampleUserContainer
          ''pvc://mymodel/v1'' '''' clusterClient) = None \<and>
   InjectTwice secretPackage emptyDeployment exampleUserContainer ''pvc://mymodel/v1'' ''''
     clusterClient =
   InjectModelInitializer secretPackage emptyDeployment exampleUserContainer ''pvc://mymodel/v1''
     '''' clusterClient \<and>
   (\<exists>c\<in>set (InitContainers (Spec injectedDeployment)).
      Container.Name c = ModelInitializerContainerName) \<and>
   InjectModelInitializer secretPackage injectedDeployment exampleUserContainer
     ''pvc://mymodel/v1'' '''' clusterClient = ((injectedDeployment, exampleUserContainer), None)"
proof -
  note c = secretPackage_contract
  have s: "snd (InjectModelInitializer secretPackage emptyDeployment exampleUserContainer
                  ''pvc://mymodel/v1'' '''' clusterClient) = None"
    by (simp add: model_defs example_defs)
  note h = injectedDeployment_reserved
  note once = injection_idempotent_once_injected[of secretPackage emptyDeployment
         exampleUserContainer "''pvc://mymodel/v1''" "''''" clusterClient]
  note guard = injection_idempotent_once_injected[of secretPackage injectedDeployment
         exampleUserContainer "''pvc://mymodel/v1''" "''''" clusterClient]
  have t: "InjectTwice secretPackage emptyDeployment exampleUserContainer ''pvc://mymodel/v1''
             '''' clusterClient =
           InjectModelInitializer secretPackage emptyDeployment exampleUserContainer
             ''pvc://mymodel/v1'' '''' clusterClient"
    by (rule mp[OF conjunct1[OF once] conjI[OF c s]])
  have g: "InjectModelInitializer secretPackage injectedDeployment exampleUserContainer
             ''pvc://mymodel/v1'' '''' clusterClient =
           ((injectedDeployment, exampleUserContainer), None)"
    by (rule mp[OF conjunct2[OF guard] h])
  show ?thesis by (intro conjI c s t h g)
qed

text \<open>
  C3. The PodTemplate holds no init container with the reserved name, so the invocation
  reaches the credential step, with the volumes \<open>podVolumes @ [sharedVolume]\<close> it has
  built for the source URI. If that step fails with \<open>err\<close> (the config map cannot be
  found, or the builder's \<^verbatim>\<open>CreateSecretVolumeAndEnv\<close> returns \<open>err\<close>), the invocation
  returns \<open>err\<close>, the init-container list is as it was, and the volume list still starts
  with the former volumes followed by the newly built ones (the builder, by its
  contract, only appends to the list).
\<close>

theorem credential_failure_keeps_volumes:
  assumes "\<forall>c\<in>set (InitContainers (Spec deployment)).
             Container.Name c \<noteq> ModelInitializerContainerName"
    and "CredentialContract pkg"
    and "pvcSource srcURI = Inr (podVolumes, mounts, uri)"
    and "credentialsBuilder pkg Client = Inl err \<or>
         (\<exists>cb. credentialsBuilder pkg Client = Inr cb \<and>
               fst (cb (Namespace deployment)
                      (if serviceAccountName = '''' then ServiceAccountName (Spec deployment)
                       else serviceAccountName)
                      (initContainerLiteral uri (mounts @ [sharedVolumeWriteMount]))
                      (Volumes (Spec deployment) @ podVolumes @ [sharedVolume])) = Some err)"
  shows "snd (InjectModelInitializer pkg deployment userContainer srcURI serviceAccountName Client)
           = Some err \<and>
         InitContainers (Spec (fst (fst (InjectModelInitializer pkg deployment userContainer
           srcURI serviceAccountName Client)))) = InitContainers (Spec deployment) \<and>
         prefix (Volumes (Spec deployment) @ podVolumes @ [sharedVolume])
           (Volumes (Spec (fst (fst (InjectModelInitializer pkg deployment userContainer
              srcURI serviceAccountName Client)))))"
proof -
  have fresh: "\<not> alreadyInjected (InitContainers (Spec deployment))"
    using assms(1) by (simp add: alreadyInjected_iff)
  from assms(4) show ?thesis
  proof (elim disjE exE conjE)
    assume "credentialsBuilder pkg Client = Inl err"
    from Inject_lookup_fails[OF fresh assms(3) this] show ?thesis by simp
  next
    fix cb
    assume cb: "credentialsBuilder pkg Client = Inr cb"
      and failed: "fst (cb (Namespace deployment)
                      (if serviceAccountName = '''' then ServiceAccountName (Spec deployment)
                       else serviceAccountName)
                      (initContainerLiteral uri (mounts @ [sharedVolumeWriteMount]))
                      (Volumes (Spec deployment) @ podVolumes @ [sharedVolume])) = Some err"
    then obtain ic vols where call:
      "cb (Namespace deployment)
          (if serviceAccountName = '''' then ServiceAccountName (Spec deployment)
           else serviceAccountName)
          (initContainerLiteral uri (mounts @ [sharedVolumeWriteMount]))
          (Volumes (Spec deployment) @ podVolumes @ [sharedVolume]) = (Some err, ic, vols)"
      by (metis fst_conv prod_cases3)
    have "prefix (Volumes (Spec deployment) @ podVolumes @ [sharedVolume]) vols"
      by (rule contract_keeps(5)[OF assms(2) cb call])
    with Inject_credentials_fail[OF fresh assms(3) cb call] show ?thesis by simp
  qed
qed

theorem credential_failure_keeps_volumes_witness:
  "InitContainers (Spec emptyDeployment) = [] \<and>
   CredentialContract brokenPackage \<and>
   pvcSource ''pvc://mymodel/v1'' =
     Inr ([pvcSourceVolume ''mymodel''], [pvcSourceVolumeMount], ''/mnt/pvc/v1'') \<and>
   snd (InjectModelInitializer brokenPackage emptyDeployment exampleUserContainer
          ''pvc://mymodel/v1'' '''' clusterClient) =
     Some (CredentialError ''malformed credential configuration'') \<and>
   InitContainers (Spec (fst (fst (InjectModelInitializer brokenPackage emptyDeployment
     exampleUserContainer ''pvc://mymodel/v1'' '''' clusterClient)))) = [] \<and>
   prefix [pvcSourceVolume ''mymodel'', sharedVolume]
     (Volumes (Spec (fst (fst (InjectModelInitializer brokenPackage emptyDeployment
        exampleUserContainer ''pvc://mymodel/v1'' '''' clusterClient)))))"
proof -
  have p: "pvcSource ''pvc://mymodel/v1'' =
             Inr ([pvcSourceVolume ''mymodel''], [pvcSourceVolumeMount], ''/mnt/pvc/v1'')"
    by (simp add: pvcSource_def HasPrefix_def TrimPrefix_def PvcURIPrefix_def parsePvcURI_def
          Split.simps PvcSourceMountPath_def)
  have f: "credentialsBuilder brokenPackage clusterClient =
             Inl (CredentialError ''malformed credential configuration'') \<or>
           (\<exists>cb. credentialsBuilder brokenPackage clusterClient = Inr cb \<and>
                 fst (cb (Namespace emptyDeployment)
                        (if '''' = '''' then ServiceAccountName (Spec emptyDeployment) else '''')
                        (initContainerLiteral ''/mnt/pvc/v1''
                           ([pvcSourceVolumeMount] @ [sharedVolumeWriteMount]))
                        (Volumes (Spec emptyDeployment) @ [pvcSourceVolume ''mymodel''] @
                           [sharedVolume])) =
                 Some (CredentialError ''malformed credential configuration''))"
    by (simp add: credentialsBuilder_def example_defs)
  from credential_failure_keeps_volumes[OF emptyDeployment_fresh brokenPackage_contract p f,
         where userContainer = exampleUserContainer]
  have "snd (InjectModelInitializer brokenPackage emptyDeployment exampleUserContainer
               ''pvc://mymodel/v1'' '''' clusterClient) =
          Some (CredentialError ''malformed credential configuration'')"
    and "InitContainers (Spec (fst (fst (InjectModelInitializer brokenPackage emptyDeployment
           exampleUserContainer ''pvc://mymodel/v1'' '''' clusterClient)))) = []"
    and "prefix [pvcSourceVolume ''mymodel'', sharedVolume]
           (Volumes (Spec (fst (fst (InjectModelInitializer brokenPackage emptyDeployment
              exampleUserContainer ''pvc://mymodel/v1'' '''' clusterClient)))))"
    by (simp_all add: emptyDeployment_def emptyPodSpec_def)
  then show ?thesis
    by (intro conjI emptyDeployment_no_init brokenPackage_contract p)
qed

text \<open>
  C4. For a claim-backed source URI (it starts with \<^verbatim>\<open>pvc://\<close>), after an invocation
  that injects and returns no error (builder within its contract): the URI parses to a
  claim name and a sub-path, and the first argument of the init container appended is
  the staging mount path, one separator and the sub-path. When the sub-path is empty
  that is \<^verbatim>\<open>/mnt/pvc/\<close>, which does not end in two separators. The builder was handed
  the former volumes followed by exactly two new ones, the claim volume that refers to
  the claim name and the scratch volume, and the volume list is that list as the builder
  left it (so it starts with it).
\<close>

theorem claim_uri_rewritten:
  assumes "HasPrefix srcURI PvcURIPrefix"
    and "\<forall>c\<in>set (InitContainers (Spec deployment)).
           Container.Name c \<noteq> ModelInitializerContainerName"
    and "CredentialContract pkg"
    and "InjectModelInitializer pkg deployment userContainer srcURI serviceAccountName Client =
           ((deployment', userContainer'), None)"
  shows "\<exists>pvcName pvcPath ic cb.
           parsePvcURI srcURI = Inr (pvcName, pvcPath) \<and>
           InitContainers (Spec deployment') = InitContainers (Spec deployment) @ [ic] \<and>
           Container.Name ic = ModelInitializerContainerName \<and>
           Args ic ! 0 = PvcSourceMountPath @ ''/'' @ pvcPath \<and>
           (pvcPath = '''' \<longrightarrow> Args ic ! 0 = ''/mnt/pvc/'' \<and> \<not> suffix ''//'' (Args ic ! 0)) \<and>
           credentialsBuilder pkg Client = Inr cb \<and>
           cb (Namespace deployment)
              (if serviceAccountName = '''' then ServiceAccountName (Spec deployment)
               else serviceAccountName)
              (initContainerLiteral (PvcSourceMountPath @ ''/'' @ pvcPath)
                 [pvcSourceVolumeMount, sharedVolumeWriteMount])
              (Volumes (Spec deployment) @ [pvcSourceVolume pvcName, sharedVolume]) =
             (None, ic, Volumes (Spec deployment')) \<and>
           prefix (Volumes (Spec deployment) @ [pvcSourceVolume pvcName, sharedVolume])
             (Volumes (Spec deployment')) \<and>
           VolumeSource (pvcSourceVolume pvcName) = PersistentVolumeClaim pvcName \<and>
           VolumeSource sharedVolume = EmptyDir"
proof -
  have fresh: "\<not> alreadyInjected (InitContainers (Spec deployment))"
    using assms(2) by (simp add: alreadyInjected_iff)
  obtain pvcName pvcPath where parse: "parsePvcURI srcURI = Inr (pvcName, pvcPath)"
    using parsePvcURI_parts[of srcURI] by blast
  note p = pvcSource_pvc[OF assms(1) parse]
  from Inject_success_contract[OF fresh assms(3) p assms(4)]
  obtain cb ic where cb: "credentialsBuilder pkg Client = Inr cb"
    and call: "cb (Namespace deployment)
                 (if serviceAccountName = '''' then ServiceAccountName (Spec deployment)
                  else serviceAccountName)
                 (initContainerLiteral (PvcSourceMountPath @ ''/'' @ pvcPath)
                    ([pvcSourceVolumeMount] @ [sharedVolumeWriteMount]))
                 (Volumes (Spec deployment) @ [pvcSourceVolume pvcName] @ [sharedVolume]) =
               (None, ic, Volumes (Spec deployment'))"
    and ics: "InitContainers (Spec deployment') = InitContainers (Spec deployment) @ [ic]"
    and name: "Container.Name ic = ModelInitializerContainerName"
    and args: "Args ic = [PvcSourceMountPath @ ''/'' @ pvcPath, DefaultModelLocalMountPath]"
    and vols: "prefix (Volumes (Spec deployment) @ [pvcSourceVolume pvcName] @ [sharedVolume])
                 (Volumes (Spec deployment'))"
    by blast
  have empty: "pvcPath = '''' \<longrightarrow> Args ic ! 0 = ''/mnt/pvc/'' \<and> \<not> suffix ''//'' (Args ic ! 0)"
    by (simp add: args PvcSourceMountPath_def suffix_def)
  have src: "VolumeSource (pvcSourceVolume pvcName) = PersistentVolumeClaim pvcName"
    "VolumeSource sharedVolume = EmptyDir"
    by (simp_all add: pvcSourceVolume_def sharedVolume_def)
  show ?thesis
    using parse ics name args empty cb call vols src
    by (intro exI[of _ pvcName] exI[of _ pvcPath] exI[of _ ic] exI[of _ cb]) simp
qed

theorem claim_uri_rewritten_witness:
  "HasPrefix ''pvc://mymodel/v1'' PvcURIPrefix \<and>
   InitContainers (Spec emptyDeployment) = [] \<and>
   CredentialContract plainPackage \<and>
   snd (InjectModelInitializer plainPackage emptyDeployment exampleUserContainer
          ''pvc://mymodel/v1'' '''' clusterClient) = None \<and>
   Args (last (InitContainers (Spec (fst (fst (InjectModelInitializer plainPackage
     emptyDeployment exampleUserContainer ''pvc://mymodel/v1'' '''' clusterClient)))))) ! 0 =
     ''/mnt/pvc/v1'' \<and>
   Volumes (Spec (fst (fst (InjectModelInitializer plainPackage emptyDeployment
     exampleUserContainer ''pvc://mymodel/v1'' '''' clusterClient)))) =
     [pvcSourceVolume ''mymodel'', sharedVolume]"
proof -
  let ?r = "InjectModelInitializer plainPackage emptyDeployment exampleUserContainer
              ''pvc://mymodel/v1'' '''' clusterClient"
  have s: "snd ?r = None"
    by (simp add: model_defs example_defs)
  then have run: "?r = ((fst (fst ?r), snd (fst ?r)), None)"
    by (simp add: prod_eq_iff)
  have h: "HasPrefix ''pvc://mymodel/v1'' PvcURIPrefix"
    by (simp add: HasPrefix_def PvcURIPrefix_def)
  have parse: "parsePvcURI ''pvc://mymodel/v1'' = Inr (''mymodel'', ''v1'')"
    by (simp add: parsePvcURI_def TrimPrefix_def HasPrefix_def PvcURIPrefix_def Split.simps)
  have b: "credentialsBuilder plainPackage clusterClient = Inr (noCredentials clusterClient [])"
    by (simp add: credentialsBuilder_def example_defs)
  note t = claim_uri_rewritten[OF h emptyDeployment_fresh plainPackage_contract run]
  from t have 1: "Args (last (InitContainers (Spec (fst (fst ?r))))) ! 0 = ''/mnt/pvc/v1''"
    by (elim exE conjE) (simp add: parse PvcSourceMountPath_def)
  from t have 2: "Volumes (Spec (fst (fst ?r))) = [pvcSourceVolume ''mymodel'', sharedVolume]"
    by (elim exE conjE)
       (clarsimp simp: parse b noCredentials_def emptyDeployment_def emptyPodSpec_def)
  show ?thesis
    by (intro conjI h emptyDeployment_no_init plainPackage_contract s 1 2)
qed

text \<open>
  C5. After an invocation that returns no error, on a PodTemplate that held no init
  container with the reserved name (and with a builder that keeps to its contract), the
  PodTemplate holds exactly one init container with the reserved name; every init
  container of that name has exactly two arguments, the second of which is the local
  mount path \<^verbatim>\<open>/mnt/models\<close>.
\<close>

theorem injected_container_shape:
  assumes "\<forall>c\<in>set (InitContainers (Spec deployment)).
             Container.Name c \<noteq> ModelInitializerContainerName"
    and "CredentialContract pkg"
    and "InjectModelInitializer pkg deployment userContainer srcURI serviceAccountName Client =
           ((deployment', userContainer'), None)"
  shows "length (filter (\<lambda>c. Container.Name c = ModelInitializerContainerName)
                   (InitContainers (Spec deployment'))) = 1 \<and>
         (\<forall>c\<in>set (InitContainers (Spec deployment')).
            Container.Name c = ModelInitializerContainerName \<longrightarrow>
              length (Args c) = 2 \<and> Args c ! 1 = DefaultModelLocalMountPath) \<and>
         DefaultModelLocalMountPath = ''/mnt/models''"
proof -
  have fresh: "\<not> alreadyInjected (InitContainers (Spec deployment))"
    using assms(1) by (simp add: alreadyInjected_iff)
  obtain pv mm u where p: "pvcSource srcURI = Inr (pv, mm, u)"
    by (rule pvcSource_result)
  from Inject_success_contract[OF fresh assms(2) p assms(3)]
  obtain ic where ics: "InitContainers (Spec deployment') = InitContainers (Spec deployment) @ [ic]"
    and name: "Container.Name ic = ModelInitializerContainerName"
    and args: "Args ic = [u, DefaultModelLocalMountPath]"
    by blast
  have none: "filter (\<lambda>c. Container.Name c = ModelInitializerContainerName)
                (InitContainers (Spec deployment)) = []"
    using assms(1) by (simp add: filter_empty_conv)
  have one: "length (filter (\<lambda>c. Container.Name c = ModelInitializerContainerName)
                       (InitContainers (Spec deployment'))) = 1"
    by (simp add: ics none name)
  have shape: "\<forall>c\<in>set (InitContainers (Spec deployment')).
                 Container.Name c = ModelInitializerContainerName \<longrightarrow>
                   length (Args c) = 2 \<and> Args c ! 1 = DefaultModelLocalMountPath"
    using assms(1) by (auto simp: ics args)
  show ?thesis
    using one shape by (simp add: DefaultModelLocalMountPath_def)
qed

theorem injected_container_shape_witness:
  "InitContainers (Spec emptyDeployment) = [] \<and>
   CredentialContract secretPackage \<and>
   snd (InjectModelInitializer secretPackage emptyDeployment exampleUserContainer
          ''s3://bucket/model'' '''' clusterClient) = None \<and>
   length (filter (\<lambda>c. Container.Name c = ModelInitializerContainerName)
             (InitContainers (Spec (fst (fst (InjectModelInitializer secretPackage
                emptyDeployment exampleUserContainer ''s3://bucket/model'' ''''
                clusterClient)))))) = 1 \<and>
   map (\<lambda>c. (length (Args c), Args c ! 1))
     (filter (\<lambda>c. Container.Name c = ModelInitializerContainerName)
        (InitContainers (Spec (fst (fst (InjectModelInitializer secretPackage
           emptyDeployment exampleUserContainer ''s3://bucket/model'' '''' clusterClient)))))) =
     [(2, ''/mnt/models'')]"
proof -
  let ?r = "InjectModelInitializer secretPackage emptyDeployment exampleUserContainer
              ''s3://bucket/model'' '''' clusterClient"
  have s: "snd ?r = None"
    by (simp add: model_defs example_defs)
  then have run: "?r = ((fst (fst ?r), snd (fst ?r)), None)"
    by (simp add: prod_eq_iff)
  note t = injected_container_shape[OF emptyDeployment_fresh secretPackage_contract run]
  let ?injected = "filter (\<lambda>c. Container.Name c = ModelInitializerContainerName)
                     (InitContainers (Spec (fst (fst ?r))))"
  from conjunct1[OF t] obtain c where one: "?injected = [c]"
    by (cases ?injected) auto
  then have "c \<in> set ?injected" by simp
  then have "c \<in> set (InitContainers (Spec (fst (fst ?r))))"
    and "Container.Name c = ModelInitializerContainerName"
    by simp_all
  with conjunct2[OF t] have "length (Args c) = 2" and "Args c ! 1 = ''/mnt/models''"
    by auto
  then have shape: "map (\<lambda>c. (length (Args c), Args c ! 1)) ?injected = [(2, ''/mnt/models'')]"
    by (simp add: one)
  show ?thesis
    by (intro conjI emptyDeployment_no_init secretPackage_contract s conjunct1[OF t] shape)
qed

text \<open>
  C6. After an invocation that injects (the PodTemplate held no init container with the
  reserved name) and returns no error, with a builder that keeps to its contract: the
  init container appended mounts the scratch volume read-write, the user container has
  gained the read-only mount of the scratch volume as its last mount, both mounts have
  the same mount path, and the scratch volume is among the volumes. When the source URI
  is claim-backed, the claim volume is among the volumes and the init container's mounts
  start with the read-only mount of that volume.
\<close>

theorem scratch_mounts_symmetric:
  assumes "\<forall>c\<in>set (InitContainers (Spec deployment)).
             Container.Name c \<noteq> ModelInitializerContainerName"
    and "CredentialContract pkg"
    and "InjectModelInitializer pkg deployment userContainer srcURI serviceAccountName Client =
           ((deployment', userContainer'), None)"
  shows "\<exists>ic. InitContainers (Spec deployment') = InitContainers (Spec deployment) @ [ic] \<and>
              Container.Name ic = ModelInitializerContainerName \<and>
              sharedVolumeWriteMount \<in> set (VolumeMounts ic) \<and>
              VolumeMount.Name sharedVolumeWriteMount = ModelInitializerVolumeName \<and>
              \<not> ReadOnly sharedVolumeWriteMount \<and>
              VolumeMounts userContainer' = VolumeMounts userContainer @ [sharedVolumeReadMount] \<and>
              VolumeMount.Name sharedVolumeReadMount = ModelInitializerVolumeName \<and>
              ReadOnly sharedVolumeReadMount \<and>
              MountPath sharedVolumeWriteMount = MountPath sharedVolumeReadMount \<and>
              sharedVolume \<in> set (Volumes (Spec deployment')) \<and>
              Volume.Name sharedVolume = ModelInitializerVolumeName \<and>
              (HasPrefix srcURI PvcURIPrefix \<longrightarrow>
                 (\<exists>pvcName. pvcSourceVolume pvcName \<in> set (Volumes (Spec deployment')) \<and>
                    Volume.Name (pvcSourceVolume pvcName) =
                      VolumeMount.Name pvcSourceVolumeMount) \<and>
                 prefix [pvcSourceVolumeMount, sharedVolumeWriteMount] (VolumeMounts ic) \<and>
                 ReadOnly pvcSourceVolumeMount)"
proof -
  have fresh: "\<not> alreadyInjected (InitContainers (Spec deployment))"
    using assms(1) by (simp add: alreadyInjected_iff)
  obtain pv mm u where p: "pvcSource srcURI = Inr (pv, mm, u)"
    by (rule pvcSource_result)
  from Inject_success_contract[OF fresh assms(2) p assms(3)]
  obtain ic where ics: "InitContainers (Spec deployment') = InitContainers (Spec deployment) @ [ic]"
    and name: "Container.Name ic = ModelInitializerContainerName"
    and uc: "userContainer' =
               userContainer\<lparr>VolumeMounts := VolumeMounts userContainer @ [sharedVolumeReadMount]\<rparr>"
    and mounts: "prefix (mm @ [sharedVolumeWriteMount]) (VolumeMounts ic)"
    and vols: "prefix (Volumes (Spec deployment) @ pv @ [sharedVolume]) (Volumes (Spec deployment'))"
    by blast
  have w: "sharedVolumeWriteMount \<in> set (VolumeMounts ic)"
    using set_mono_prefix[OF mounts] by auto
  have v: "set pv \<union> {sharedVolume} \<subseteq> set (Volumes (Spec deployment'))"
    using set_mono_prefix[OF vols] by auto
  have lit:
    "VolumeMount.Name sharedVolumeWriteMount = ModelInitializerVolumeName"
    "\<not> ReadOnly sharedVolumeWriteMount"
    "VolumeMount.Name sharedVolumeReadMount = ModelInitializerVolumeName"
    "ReadOnly sharedVolumeReadMount"
    "MountPath sharedVolumeWriteMount = MountPath sharedVolumeReadMount"
    "Volume.Name sharedVolume = ModelInitializerVolumeName"
    "\<And>pvcName. Volume.Name (pvcSourceVolume pvcName) = VolumeMount.Name pvcSourceVolumeMount"
    "ReadOnly pvcSourceVolumeMount"
    by (simp_all add: sharedVolumeWriteMount_def sharedVolumeReadMount_def sharedVolume_def
          pvcSourceVolume_def pvcSourceVolumeMount_def)
  have claim: "HasPrefix srcURI PvcURIPrefix \<longrightarrow>
                 (\<exists>pvcName. pvcSourceVolume pvcName \<in> set (Volumes (Spec deployment')) \<and>
                    Volume.Name (pvcSourceVolume pvcName) =
                      VolumeMount.Name pvcSourceVolumeMount) \<and>
                 prefix [pvcSourceVolumeMount, sharedVolumeWriteMount] (VolumeMounts ic)"
    using pvcSource_shape(1,2)[OF p] v mounts lit(7) by auto
  show ?thesis
    using ics name w uc v lit(1-6,8) claim by (intro exI[of _ ic]) simp
qed

theorem scratch_mounts_symmetric_witness:
  "InitContainers (Spec emptyDeployment) = [] \<and>
   CredentialContract secretPackage \<and>
   HasPrefix ''pvc://mymodel/v1'' PvcURIPrefix \<and>
   snd (InjectModelInitializer secretPackage emptyDeployment exampleUserContainer
          ''pvc://mymodel/v1'' '''' clusterClient) = None \<and>
   VolumeMounts (snd (fst (InjectModelInitializer secretPackage emptyDeployment
     exampleUserContainer ''pvc://mymodel/v1'' '''' clusterClient))) = [sharedVolumeReadMount] \<and>
   prefix [pvcSourceVolumeMount, sharedVolumeWriteMount]
     (VolumeMounts (last (InitContainers (Spec (fst (fst (InjectModelInitializer secretPackage
        emptyDeployment exampleUserContainer ''pvc://mymodel/v1'' '''' clusterClient)))))))"
proof -
  let ?r = "InjectModelInitializer secretPackage emptyDeployment exampleUserContainer
              ''pvc://mymodel/v1'' '''' clusterClient"
  have s: "snd ?r = None"
    by (simp add: model_defs example_defs)
  then have run: "?r = ((fst (fst ?r), snd (fst ?r)), None)"
    by (simp add: prod_eq_iff)
  have h: "HasPrefix ''pvc://mymodel/v1'' PvcURIPrefix"
    by (simp add: HasPrefix_def PvcURIPrefix_def)
  from scratch_mounts_symmetric[OF emptyDeployment_fresh secretPackage_contract run] h
  obtain ic where
    ics: "InitContainers (Spec (fst (fst ?r))) = InitContainers (Spec emptyDeployment) @ [ic]"
    and uc: "VolumeMounts (snd (fst ?r)) =
               VolumeMounts exampleUserContainer @ [sharedVolumeReadMount]"
    and m: "prefix [pvcSourceVolumeMount, sharedVolumeWriteMount] (VolumeMounts ic)"
    by (elim exE conjE impE)
  have 1: "VolumeMounts (snd (fst ?r)) = [sharedVolumeReadMount]"
    using uc by (simp add: exampleUserContainer_def)
  have 2: "prefix [pvcSourceVolumeMount, sharedVolumeWriteMount]
             (VolumeMounts (last (InitContainers (Spec (fst (fst ?r))))))"
    using m by (simp add: ics)
  show ?thesis
    by (intro conjI emptyDeployment_no_init secretPackage_contract h s 1 2)
qed

text \<open>
  C7. For a source URI that does not start with \<^verbatim>\<open>pvc://\<close>, after an invocation that
  injects and returns no error (builder within its contract): the init container
  appended has the reserved name, the configured image and tag, and the arguments
  \<open>[srcURI, /mnt/models]\<close>, with the URI as it was given; the user container has gained
  one mount, the read-only mount of the scratch volume; the builder was handed the
  former volumes followed by exactly one new volume, the scratch volume, and the volume
  list is that list as the builder left it (so it starts with it).
\<close>

theorem other_scheme_passed_through:
  assumes "\<not> HasPrefix srcURI PvcURIPrefix"
    and "\<forall>c\<in>set (InitContainers (Spec deployment)).
           Container.Name c \<noteq> ModelInitializerContainerName"
    and "CredentialContract pkg"
    and "InjectModelInitializer pkg deployment userContainer srcURI serviceAccountName Client =
           ((deployment', userContainer'), None)"
  shows "\<exists>ic cb.
           InitContainers (Spec deployment') = InitContainers (Spec deployment) @ [ic] \<and>
           Container.Name ic = ModelInitializerContainerName \<and>
           Image ic = ModelInitializerContainerImage @ '':'' @ ModelInitializerContainerVersion \<and>
           Image ic = ''gcr.io/kfserving/model-initializer:latest'' \<and>
           Args ic = [srcURI, DefaultModelLocalMountPath] \<and>
           Args ic = [srcURI, ''/mnt/models''] \<and>
           userContainer' =
             userContainer\<lparr>VolumeMounts := VolumeMounts userContainer @ [sharedVolumeReadMount]\<rparr> \<and>
           ReadOnly sharedVolumeReadMount \<and>
           credentialsBuilder pkg Client = Inr cb \<and>
           cb (Namespace deployment)
              (if serviceAccountName = '''' then ServiceAccountName (Spec deployment)
               else serviceAccountName)
              (initContainerLiteral srcURI [sharedVolumeWriteMount])
              (Volumes (Spec deployment) @ [sharedVolume]) =
             (None, ic, Volumes (Spec deployment')) \<and>
           prefix (Volumes (Spec deployment) @ [sharedVolume]) (Volumes (Spec deployment')) \<and>
           VolumeSource sharedVolume = EmptyDir"
proof -
  have fresh: "\<not> alreadyInjected (InitContainers (Spec deployment))"
    using assms(2) by (simp add: alreadyInjected_iff)
  note p = pvcSource_other[OF assms(1)]
  from Inject_success_contract[OF fresh assms(3) p assms(4)]
  obtain cb ic where cb: "credentialsBuilder pkg Client = Inr cb"
    and call: "cb (Namespace deployment)
                 (if serviceAccountName = '''' then ServiceAccountName (Spec deployment)
                  else serviceAccountName)
                 (initContainerLiteral srcURI ([] @ [sharedVolumeWriteMount]))
                 (Volumes (Spec deployment) @ [] @ [sharedVolume]) =
               (None, ic, Volumes (Spec deployment'))"
    and ics: "InitContainers (Spec deployment') = InitContainers (Spec deployment) @ [ic]"
    and uc: "userContainer' =
               userContainer\<lparr>VolumeMounts := VolumeMounts userContainer @ [sharedVolumeReadMount]\<rparr>"
    and name: "Container.Name ic = ModelInitializerContainerName"
    and image: "Image ic = ModelInitializerContainerImage @ '':'' @ ModelInitializerContainerVersion"
    and args: "Args ic = [srcURI, DefaultModelLocalMountPath]"
    and vols: "prefix (Volumes (Spec deployment) @ [] @ [sharedVolume]) (Volumes (Spec deployment'))"
    by blast
  have lit: "Image ic = ''gcr.io/kfserving/model-initializer:latest''"
    "Args ic = [srcURI, ''/mnt/models'']"
    "ReadOnly sharedVolumeReadMount" "VolumeSource sharedVolume = EmptyDir"
    by (simp_all add: image args ModelInitializerContainerImage_def
          ModelInitializerContainerVersion_def DefaultModelLocalMountPath_def
          sharedVolumeReadMount_def sharedVolume_def)
  show ?thesis
    using ics name image args uc cb call vols lit
    by (intro exI[of _ ic] exI[of _ cb]) simp
qed

theorem other_scheme_passed_through_witness:
  "\<not> HasPrefix ''s3://bucket/model'' PvcURIPrefix \<and>
   InitContainers (Spec emptyDeployment) = [] \<and>
   CredentialContract plainPackage \<and>
   snd (InjectModelInitializer plainPackage emptyDeployment exampleUserContainer
          ''s3://bucket/model'' '''' clusterClient) = None \<and>
   Image (last (InitContainers (Spec (fst (fst (InjectModelInitializer plainPackage
     emptyDeployment exampleUserContainer ''s3://bucket/model'' '''' clusterClient)))))) =
     ''gcr.io/kfserving/model-initializer:latest'' \<and>
   Args (last (InitContainers (Spec (fst (fst (InjectModelInitializer plainPackage
     emptyDeployment exampleUserContainer ''s3://bucket/model'' '''' clusterClient)))))) =
     [''s3://bucket/model'', ''/mnt/models''] \<and>
   Volumes (Spec (fst (fst (InjectModelInitializer plainPackage emptyDeployment
     exampleUserContainer ''s3://bucket/model'' '''' clusterClient)))) = [sharedVolume] \<and>
   VolumeMounts (snd (fst (InjectModelInitializer plainPackage emptyDeployment
     exampleUserContainer ''s3://bucket/model'' '''' clusterClient))) = [sharedVolumeReadMount]"
proof -
  let ?r = "InjectModelInitializer plainPackage emptyDeployment exampleUserContainer
              ''s3://bucket/model'' '''' clusterClient"
  have s: "snd ?r = None"
    by (simp add: model_defs example_defs)
  then have run: "?r = ((fst (fst ?r), snd (fst ?r)), None)"
    by (simp add: prod_eq_iff)
  have h: "\<not> HasPrefix ''s3://bucket/model'' PvcURIPrefix"
    by (simp add: HasPrefix_def PvcURIPrefix_def)
  have b: "credentialsBuilder plainPackage clusterClient = Inr (noCredentials clusterClient [])"
    by (simp add: credentialsBuilder_def example_defs)
  note t = other_scheme_passed_through[OF h emptyDeployment_fresh plainPackage_contract run]
  from t have 1: "Image (last (InitContainers (Spec (fst (fst ?r))))) =
                    ''gcr.io/kfserving/model-initializer:latest''"
    by (elim exE conjE) simp
  from t have 2: "Args (last (InitContainers (Spec (fst (fst ?r))))) =
                    [''s3://bucket/model'', ''/mnt/models'']"
    by (elim exE conjE) simp
  from t have 3: "Volumes (Spec (fst (fst ?r))) = [sharedVolume]"
    by (elim exE conjE) (clarsimp simp: b noCredentials_def emptyDeployment_def emptyPodSpec_def)
  from t have 4: "VolumeMounts (snd (fst ?r)) = [sharedVolumeReadMount]"
    by (elim exE conjE) (simp add: exampleUserContainer_def)
  show ?thesis
    by (intro conjI h emptyDeployment_no_init plainPackage_contract s 1 2 3 4)
qed

text \<open>
  C9. The guard runs before any look at the source URI: when the PodTemplate already
  holds an init container with the reserved name, the invocation returns no error and
  changes nothing, for every source URI (and every client and builder), malformed
  claim-backed URIs included.
\<close>

theorem guard_precedes_validation:
  assumes "\<exists>c\<in>set (InitContainers (Spec deployment)).
             Container.Name c = ModelInitializerContainerName"
  shows "InjectModelInitializer pkg deployment userContainer srcURI serviceAccountName Client =
           ((deployment, userContainer), None)"
  using assms by (simp add: Inject_guard alreadyInjected_iff)

theorem guard_precedes_validation_witness:
  "(\<exists>c\<in>set (InitContainers (Spec injectedDeployment)).
      Container.Name c = ModelInitializerContainerName) \<and>
   InjectModelInitializer brokenPackage injectedDeployment exampleUserContainer ''pvc://'' ''''
     failingClient = ((injectedDeployment, exampleUserContainer), None)"
proof -
  note h = injectedDeployment_reserved
  show ?thesis by (intro conjI h guard_precedes_validation[OF h])
qed

text \<open>
  C10. Under the same conditions as C3 (no reserved init container, the credential step
  fails with \<open>err\<close>), the user container is left with the read-only scratch mount
  appended to its mounts, and is otherwise as it was: the append of line 140 comes
  before the credential step and nothing undoes it. No assumption on the builder is
  needed, since the user container is not handed to it.
\<close>

theorem credential_failure_keeps_user_mount:
  assumes "\<forall>c\<in>set (InitContainers (Spec deployment)).
             Container.Name c \<noteq> ModelInitializerContainerName"
    and "pvcSource srcURI = Inr (podVolumes, mounts, uri)"
    and "credentialsBuilder pkg Client = Inl err \<or>
         (\<exists>cb. credentialsBuilder pkg Client = Inr cb \<and>
               fst (cb (Namespace deployment)
                      (if serviceAccountName = '''' then ServiceAccountName (Spec deployment)
                       else serviceAccountName)
                      (initContainerLiteral uri (mounts @ [sharedVolumeWriteMount]))
                      (Volumes (Spec deployment) @ podVolumes @ [sharedVolume])) = Some err)"
  shows "snd (InjectModelInitializer pkg deployment userContainer srcURI serviceAccountName Client)
           = Some err \<and>
         snd (fst (InjectModelInitializer pkg deployment userContainer srcURI serviceAccountName
           Client)) =
           userContainer\<lparr>VolumeMounts := VolumeMounts userContainer @ [sharedVolumeReadMount]\<rparr> \<and>
         VolumeMount.Name sharedVolumeReadMount = ModelInitializerVolumeName \<and>
         ReadOnly sharedVolumeReadMount"
proof -
  have fresh: "\<not> alreadyInjected (InitContainers (Spec deployment))"
    using assms(1) by (simp add: alreadyInjected_iff)
  have ro: "VolumeMount.Name sharedVolumeReadMount = ModelInitializerVolumeName \<and>
            ReadOnly sharedVolumeReadMount"
    by (simp add: sharedVolumeReadMount_def)
  from assms(3) show ?thesis
  proof (elim disjE exE conjE)
    assume "credentialsBuilder pkg Client = Inl err"
    from Inject_lookup_fails[OF fresh assms(2) this] ro show ?thesis by simp
  next
    fix cb
    assume cb: "credentialsBuilder pkg Client = Inr cb"
      and failed: "fst (cb (Namespace deployment)
                      (if serviceAccountName = '''' then ServiceAccountName (Spec deployment)
                       else serviceAccountName)
                      (initContainerLiteral uri (mounts @ [sharedVolumeWriteMount]))
                      (Volumes (Spec deployment) @ podVolumes @ [sharedVolume])) = Some err"
    then obtain ic vols where call:
      "cb (Namespace deployment)
          (if serviceAccountName = '''' then ServiceAccountName (Spec deployment)
           else serviceAccountName)
          (initContainerLiteral uri (mounts @ [sharedVolumeWriteMount]))
          (Volumes (Spec deployment) @ podVolumes @ [sharedVolume]) = (Some err, ic, vols)"
      by (metis fst_conv prod_cases3)
    from Inject_credentials_fail[OF fresh assms(2) cb call] ro show ?thesis by simp
  qed
qed

theorem credential_failure_keeps_user_mount_witness:
  "InitContainers (Spec emptyDeployment) = [] \<and>
   pvcSource ''s3://bucket/model'' = Inr ([], [], ''s3://bucket/model'') \<and>
   credentialsBuilder plainPackage failingClient = Inl (ClientError ''configmap not found'') \<and>
   snd (InjectModelInitializer plainPackage emptyDeployment exampleUserContainer
          ''s3://bucket/model'' '''' failingClient) = Some (ClientError ''configmap not found'') \<and>
   VolumeMounts (snd (fst (InjectModelInitializer plainPackage emptyDeployment
     exampleUserContainer ''s3://bucket/model'' '''' failingClient))) = [sharedVolumeReadMount]"
proof -
  have p: "pvcSource ''s3://bucket/model'' = Inr ([], [], ''s3://bucket/model'')"
    by (simp add: pvcSource_def HasPrefix_def PvcURIPrefix_def)
  have f: "credentialsBuilder plainPackage failingClient = Inl (ClientError ''configmap not found'')"
    by (simp add: credentialsBuilder_def example_defs)
  from credential_failure_keeps_user_mount[OF emptyDeployment_fresh p disjI1[OF f],
         where serviceAccountName = "''''" and userContainer = exampleUserContainer]
  have "snd (InjectModelInitializer plainPackage emptyDeployment exampleUserContainer
               ''s3://bucket/model'' '''' failingClient) =
          Some (ClientError ''configmap not found'')"
    and "VolumeMounts (snd (fst (InjectModelInitializer plainPackage emptyDeployment
           exampleUserContainer ''s3://bucket/model'' '''' failingClient))) =
         [sharedVolumeReadMount]"
    by (simp_all add: exampleUserContainer_def)
  then show ?thesis
    by (intro conjI emptyDeployment_no_init p f)
qed

end
